theory Spec2Isabelle
  imports Main "HOL-Library.Sublist" "HOL-Library.Multiset"
begin

section \<open>Python values used by the program\<close>




text \<open>
  \<open>a in b\<close> on two strings: \<open>a\<close> occurs in \<open>b\<close> as a contiguous run of characters. No UTF-8
  encoding of a character starts inside the encoding of another, so this is the same on
  the encodings.
\<close>

definition str_in :: "string \<Rightarrow> string \<Rightarrow> bool" where
  "str_in a b = sublist a b"

text \<open>Truth value of an optional string in a condition: \<open>None\<close> and \<open>""\<close> are false.\<close>

definition truthy :: "string option \<Rightarrow> bool" where
  "truthy v = (case v of None \<Rightarrow> False | Some s \<Rightarrow> s \<noteq> [])"

text \<open>What an f-string prints for an optional string, and for an integer.\<close>

definition format_opt :: "string option \<Rightarrow> string" where
  "format_opt v = (case v of None \<Rightarrow> ''None'' | Some s \<Rightarrow> s)"

fun digits :: "nat \<Rightarrow> string" where
  "digits n =
     (if n < 10 then [char_of (48 + n)] else digits (n div 10) @ [char_of (48 + n mod 10)])"

declare digits.simps [simp del]

definition format_int :: "int \<Rightarrow> string" where
  "format_int i = (if i < 0 then CHR ''-'' # digits (nat (- i)) else digits (nat i))"

text \<open>\<open>sep.join(xs)\<close>.\<close>

fun join :: "string \<Rightarrow> string list \<Rightarrow> string" where
  "join sep [] = []"
| "join sep [x] = x"
| "join sep (x # y # ys) = x @ sep @ join sep (y # ys)"

text \<open>\<open>x or []\<close> for an optional list argument: \<open>None\<close> and the empty list both give \<open>[]\<close>.\<close>

definition or_empty :: "'a list option \<Rightarrow> 'a list" where
  "or_empty v = (case v of None \<Rightarrow> [] | Some xs \<Rightarrow> xs)"

text \<open>
  \<open>xs[:n]\<close>: a non-negative \<open>n\<close> keeps the first \<open>n\<close> elements (all of them when \<open>n\<close> is
  larger than the list); a negative \<open>n\<close> counts from the end, so that \<open>xs[:-k]\<close> drops the last
  \<open>k\<close> elements.
\<close>

definition slice_to :: "int \<Rightarrow> 'a list \<Rightarrow> 'a list" where
  "slice_to n xs =
     (if n < 0 then take (nat (int (length xs) + n)) xs else take (nat n) xs)"

text \<open>
  \<open>sorted(xs, key=f, reverse=r)\<close> returns a new list. The sort is stable; with
  \<open>reverse=True\<close> the list is reversed, sorted stably and reversed again, which yields
  descending keys with equal keys still in their original order.
\<close>

definition sorted_by :: "('a \<Rightarrow> int) \<Rightarrow> bool \<Rightarrow> 'a list \<Rightarrow> 'a list" where
  "sorted_by f reverse xs =
     (if reverse then rev (sort_key f (rev xs)) else sort_key f xs)"


section \<open>class RomanEmperor\<close>

text \<open>
  The field \<open>successor\<close> refers to another emperor object and is assigned after
  construction; the model stores the position of that emperor in the collection.
\<close>

record RomanEmperor =
  name :: string
  birth :: int
  death :: int
  reign_start :: int
  reign_end :: int
  dynasty :: "string option"
  notable_achievements :: "string list"
  cause_of_death :: "string option"
  predecessor :: "string option"
  successor :: "nat option"
  wives :: "string list"
  zodiac :: "string option"

definition new_RomanEmperor ::
  "string \<Rightarrow> int \<Rightarrow> int \<Rightarrow> int \<Rightarrow> int \<Rightarrow> string option \<Rightarrow> string list option \<Rightarrow>
   string option \<Rightarrow> string option \<Rightarrow> nat option \<Rightarrow> string list option \<Rightarrow> string option \<Rightarrow>
   RomanEmperor" where
  "new_RomanEmperor nm b d rs re dyn ach cod pre suc wvs zod =
     \<lparr> name = nm, birth = b, death = d, reign_start = rs, reign_end = re, dynasty = dyn,
       notable_achievements = or_empty ach, cause_of_death = cod, predecessor = pre,
       successor = suc, wives = or_empty wvs, zodiac = zod \<rparr>"

definition reign_duration :: "RomanEmperor \<Rightarrow> int" where
  "reign_duration e = reign_end e - reign_start e"

definition age_at_death :: "RomanEmperor \<Rightarrow> int" where
  "age_at_death e = death e - birth e"

definition age_at_accession :: "RomanEmperor \<Rightarrow> int" where
  "age_at_accession e = reign_start e - birth e"

text \<open>\<open>__str__\<close>: the list \<open>info\<close> of lines, joined by newlines.\<close>

definition info :: "RomanEmperor \<Rightarrow> string list" where
  "info e =
     [ ''Name: '' @ name e,
       ''Lived: '' @ format_int (birth e) @ '' CE - '' @ format_int (death e)
         @ '' CE (Age: '' @ format_int (age_at_death e) @ '' years)'',
       ''Reign: '' @ format_int (reign_start e) @ '' CE - '' @ format_int (reign_end e)
         @ '' CE ('' @ format_int (reign_duration e) @ '' years)'',
       (if truthy (dynasty e) then ''Dynasty: '' @ format_opt (dynasty e)
        else ''Dynasty: None''),
       (if truthy (zodiac e) then ''Zodiac Sign: '' @ format_opt (zodiac e)
        else ''Zodiac Sign: Unknown'') ]
     @ (if wives e \<noteq> [] then ''Wives/Consorts:'' # map (\<lambda>wife. ''  - '' @ wife) (wives e)
        else [])
     @ (if notable_achievements e \<noteq> []
        then ''Notable Achievements:''
               # map (\<lambda>achievement. ''  - '' @ achievement) (notable_achievements e)
        else [])
     @ (if truthy (cause_of_death e) then [''Cause of Death: '' @ format_opt (cause_of_death e)]
        else [])"

definition str :: "RomanEmperor \<Rightarrow> string" where
  "str e = join [CHR 0x0A] (info e)"


section \<open>class RomanEmpire\<close>

record RomanEmpire =
  emperors :: "RomanEmperor list"
  dynasties :: "string set"

definition new_RomanEmpire :: RomanEmpire where
  "new_RomanEmpire = \<lparr> emperors = [], dynasties = {} \<rparr>"

definition add_emperor :: "RomanEmpire \<Rightarrow> RomanEmperor \<Rightarrow> RomanEmpire" where
  "add_emperor self emperor =
     (let self1 = self\<lparr> emperors := emperors self @ [emperor] \<rparr>
      in if truthy (dynasty emperor)
         then self1\<lparr> dynasties := insert (the (dynasty emperor)) (dynasties self1) \<rparr>
         else self1)"

text \<open>A run of \<open>add_emperor\<close> calls on a new collection, one per record, in order.\<close>

definition add_all :: "RomanEmperor list \<Rightarrow> RomanEmpire" where
  "add_all records = foldl add_emperor new_RomanEmpire records"

text \<open>\<open>get_emperor_by_year\<close>: the loop over \<open>self.emperors\<close> with its accumulator.\<close>

fun by_year_loop :: "int \<Rightarrow> RomanEmperor list \<Rightarrow> RomanEmperor list \<Rightarrow> RomanEmperor list" where
  "by_year_loop year [] ruling_emperors = ruling_emperors"
| "by_year_loop year (emperor # rest) ruling_emperors =
     by_year_loop year rest
       (if reign_start emperor \<le> year \<and> year \<le> reign_end emperor
        then ruling_emperors @ [emperor] else ruling_emperors)"

definition get_emperor_by_year :: "RomanEmpire \<Rightarrow> int \<Rightarrow> RomanEmperor list" where
  "get_emperor_by_year self year = by_year_loop year (emperors self) []"

definition get_emperors_by_period :: "RomanEmpire \<Rightarrow> int \<Rightarrow> int \<Rightarrow> RomanEmperor list" where
  "get_emperors_by_period self start_year end_year =
     [emperor \<leftarrow> emperors self.
        \<not> (reign_end emperor < start_year \<or> reign_start emperor > end_year)]"

text \<open>
  \<open>get_emperor_by_name\<close>: the first record whose lowered name contains the lowered argument;
  \<open>lower\<close> stands for \<open>str.lower\<close>.
\<close>

fun get_emperor_by_name_loop ::
  "(string \<Rightarrow> string) \<Rightarrow> string \<Rightarrow> RomanEmperor list \<Rightarrow> RomanEmperor option" where
  "get_emperor_by_name_loop lower nm [] = None"
| "get_emperor_by_name_loop lower nm (emperor # rest) =
     (if str_in (lower nm) (lower (name emperor)) then Some emperor
      else get_emperor_by_name_loop lower nm rest)"

definition get_emperor_by_name ::
  "(string \<Rightarrow> string) \<Rightarrow> RomanEmpire \<Rightarrow> string \<Rightarrow> RomanEmperor option" where
  "get_emperor_by_name lower self nm = get_emperor_by_name_loop lower nm (emperors self)"

definition get_emperors_by_dynasty :: "RomanEmpire \<Rightarrow> string option \<Rightarrow> RomanEmperor list" where
  "get_emperors_by_dynasty self dyn = [emperor \<leftarrow> emperors self. dynasty emperor = dyn]"

definition get_emperors_by_zodiac :: "RomanEmpire \<Rightarrow> string option \<Rightarrow> RomanEmperor list" where
  "get_emperors_by_zodiac self zodiac_sign =
     [emperor \<leftarrow> emperors self. zodiac emperor = zodiac_sign]"

text \<open>The five top-N queries: \<open>sorted(self.emperors, key=..., reverse=...)[:top_n]\<close>.\<close>

definition get_longest_reigning :: "RomanEmpire \<Rightarrow> int \<Rightarrow> RomanEmperor list" where
  "get_longest_reigning self top_n =
     slice_to top_n (sorted_by (\<lambda>x. reign_duration x) True (emperors self))"

definition get_shortest_reigning :: "RomanEmpire \<Rightarrow> int \<Rightarrow> RomanEmperor list" where
  "get_shortest_reigning self top_n =
     slice_to top_n (sorted_by (\<lambda>x. reign_duration x) False (emperors self))"

definition get_oldest_at_death :: "RomanEmpire \<Rightarrow> int \<Rightarrow> RomanEmperor list" where
  "get_oldest_at_death self top_n =
     slice_to top_n (sorted_by (\<lambda>x. age_at_death x) True (emperors self))"

definition get_youngest_at_accession :: "RomanEmpire \<Rightarrow> int \<Rightarrow> RomanEmperor list" where
  "get_youngest_at_accession self top_n =
     slice_to top_n (sorted_by (\<lambda>x. age_at_accession x) False (emperors self))"

definition get_most_achievements :: "RomanEmpire \<Rightarrow> int \<Rightarrow> RomanEmperor list" where
  "get_most_achievements self top_n =
     slice_to top_n
       (sorted_by (\<lambda>x. int (length (notable_achievements x))) True (emperors self))"





section \<open>The top-N queries on a store of list objects\<close>

text \<open>
  \<open>self.emperors\<close> is a mutable list object, and whether a query changes it depends on
  which list each step writes to. Here a store holds the list objects, an address is a
  position in the store, and allocating appends. \<open>sorted\<close> reads its argument and
  allocates the sorted copy; a slice reads its argument and allocates the result. An empire
  object holds the address of its list.
\<close>

type_synonym 'a store = "'a list list"

definition store_sorted ::
  "('a \<Rightarrow> int) \<Rightarrow> bool \<Rightarrow> nat \<Rightarrow> 'a store \<Rightarrow> nat \<times> 'a store" where
  "store_sorted f reverse a st = (length st, st @ [sorted_by f reverse (st ! a)])"

definition store_slice_to :: "int \<Rightarrow> nat \<Rightarrow> 'a store \<Rightarrow> nat \<times> 'a store" where
  "store_slice_to n a st = (length st, st @ [slice_to n (st ! a)])"

definition store_top_n ::
  "(RomanEmperor \<Rightarrow> int) \<Rightarrow> bool \<Rightarrow> nat \<Rightarrow> int \<Rightarrow> RomanEmperor store
   \<Rightarrow> nat \<times> RomanEmperor store" where
  "store_top_n f reverse emperors_ref top_n st =
     (case store_sorted f reverse emperors_ref st of
        (sorted_ref, st1) \<Rightarrow> store_slice_to top_n sorted_ref st1)"

definition store_get_longest_reigning ::
  "nat \<Rightarrow> int \<Rightarrow> RomanEmperor store \<Rightarrow> nat \<times> RomanEmperor store" where
  "store_get_longest_reigning emperors_ref top_n st =
     store_top_n (\<lambda>x. reign_duration x) True emperors_ref top_n st"

definition store_get_shortest_reigning ::
  "nat \<Rightarrow> int \<Rightarrow> RomanEmperor store \<Rightarrow> nat \<times> RomanEmperor store" where
  "store_get_shortest_reigning emperors_ref top_n st =
     store_top_n (\<lambda>x. reign_duration x) False emperors_ref top_n st"

definition store_get_oldest_at_death ::
  "nat \<Rightarrow> int \<Rightarrow> RomanEmperor store \<Rightarrow> nat \<times> RomanEmperor store" where
  "store_get_oldest_at_death emperors_ref top_n st =
     store_top_n (\<lambda>x. age_at_death x) True emperors_ref top_n st"

definition store_get_youngest_at_accession ::
  "nat \<Rightarrow> int \<Rightarrow> RomanEmperor store \<Rightarrow> nat \<times> RomanEmperor store" where
  "store_get_youngest_at_accession emperors_ref top_n st =
     store_top_n (\<lambda>x. age_at_accession x) False emperors_ref top_n st"

definition store_get_most_achievements ::
  "nat \<Rightarrow> int \<Rightarrow> RomanEmperor store \<Rightarrow> nat \<times> RomanEmperor store" where
  "store_get_most_achievements emperors_ref top_n st =
     store_top_n (\<lambda>x. int (length (notable_achievements x))) True emperors_ref top_n st"


section \<open>The seeded collection\<close>

text \<open>The records of \<open>create_roman_empire\<close>, in the order the source constructs them.\<close>

definition augustus :: RomanEmperor where
  "augustus =
     new_RomanEmperor ''Augustus (Octavian)'' (-63) 14 (-27) 14 (Some ''Julio-Claudian'')
       (Some
       [ ''First Roman Emperor'',
         ''Established the Pax Romana (Roman Peace)'',
         (''Rebuilt much of Rome'' @ [CHR 0x27] @ ''s infrastructure''),
         ''Established a standing army and Praetorian Guard'' ])
       (Some ''Natural causes'') None None
       (Some
       [ ''Clodia Pulchra (divorced)'',
         ''Scribonia (divorced)'',
         ''Livia Drusilla'' ])
       (Some ''Libra'')"

definition tiberius :: RomanEmperor where
  "tiberius =
     new_RomanEmperor ''Tiberius'' (-42) 37 14 37 (Some ''Julio-Claudian'')
       (Some
       [ ''Expanded the empire in Germania'',
         ''Reformed the imperial treasury'',
         ''Military victories in Pannonia and Illyricum'' ])
       (Some ''Either natural causes or murdered by Caligula'') (Some ''Augustus'') None
       (Some
       [ ''Vipsania Agrippina (divorced)'',
         (''Julia the Elder (Augustus'' @ [CHR 0x27] @ ''s daughter)'') ])
       (Some ''Scorpio'')"

definition caligula :: RomanEmperor where
  "caligula =
     new_RomanEmperor ''Caligula (Gaius)'' 12 41 37 41 (Some ''Julio-Claudian'')
       (Some
       [ ''Built new aqueducts and harbors'',
         ''Annexed Mauretania'' ])
       (Some ''Assassinated by Praetorian Guard'') (Some ''Tiberius'') None
       (Some
       [ ''Junia Claudilla'',
         ''Livia Orestilla (briefly)'',
         ''Lollia Paulina (briefly)'',
         ''Milonia Caesonia'' ])
       (Some ''Virgo'')"

definition claudius :: RomanEmperor where
  "claudius =
     new_RomanEmperor ''Claudius'' (-10) 54 41 54 (Some ''Julio-Claudian'')
       (Some
       [ ''Conquered Britain'',
         ''Expanded the imperial bureaucracy'',
         ''Built many public works including the Aqua Claudia aqueduct'',
         ''Reformed the legal system'' ])
       (Some ''Poisoned (likely by his wife Agrippina)'') (Some ''Caligula'') None
       (Some
       [ ''Plautia Urgulanilla (divorced)'',
         ''Aelia Paetina (divorced)'',
         ''Valeria Messalina (executed)'',
         ''Agrippina the Younger (his niece)'' ])
       (Some ''Leo'')"

definition nero :: RomanEmperor where
  "nero =
     new_RomanEmperor ''Nero'' 37 68 54 68 (Some ''Julio-Claudian'')
       (Some
       [ ''Built the Domus Aurea (Golden House)'',
         ''Initially popular for tax reforms'',
         ''Diplomatic solution to conflict with Parthia'' ])
       (Some ''Suicide after being declared a public enemy'') (Some ''Claudius'') None
       (Some
       [ ''Claudia Octavia (executed)'',
         ''Poppaea Sabina (died; possibly kicked to death by Nero)'',
         ''Statilia Messalina'' ])
       (Some ''Sagittarius'')"

definition galba :: RomanEmperor where
  "galba =
     new_RomanEmperor ''Galba'' (-3) 69 68 69 (Some ''Year of the Four Emperors'')
       (Some
       [ ''First emperor in the Year of the Four Emperors'',
         ''Attempted financial reforms'' ])
       (Some ''Assassinated in a coup led by Otho'') (Some ''Nero'') None
       (Some [])
       (Some ''Capricorn'')"

definition otho :: RomanEmperor where
  "otho =
     new_RomanEmperor ''Otho'' 32 69 69 69 (Some ''Year of the Four Emperors'')
       (Some
       [ ''Former governor of Lusitania'',
         ''Briefly recognized by the Senate'' ])
       (Some ''Suicide after defeat in battle'') (Some ''Galba'') None
       (Some
       [ ''Poppaea Sabina (later married Nero)'' ])
       (Some ''Aries'')"

definition vitellius :: RomanEmperor where
  "vitellius =
     new_RomanEmperor ''Vitellius'' 15 69 69 69 (Some ''Year of the Four Emperors'')
       (Some
       [ ''Former governor of Germania Inferior'',
         ''Lavish banquets and entertainments'' ])
       (Some (''Executed by Vespasian'' @ [CHR 0x27] @ ''s troops'')) (Some ''Otho'') None
       (Some
       [ ''Petronia'',
         ''Galeria Fundana'' ])
       (Some ''Virgo'')"

definition vespasian :: RomanEmperor where
  "vespasian =
     new_RomanEmperor ''Vespasian'' 9 79 69 79 (Some ''Flavian'')
       (Some
       [ ''Restored stability after civil war'',
         ''Began construction of the Colosseum'',
         ''Financial reforms and balanced budget'',
         ''Conquered Judaea and destroyed the Temple in Jerusalem'' ])
       (Some ''Natural causes'') (Some ''Vitellius'') None
       (Some
       [ ''Flavia Domitilla'',
         (''Caenis (concubine after Domitilla'' @ [CHR 0x27] @ ''s death)'') ])
       (Some ''Scorpio'')"

definition titus :: RomanEmperor where
  "titus =
     new_RomanEmperor ''Titus'' 39 81 79 81 (Some ''Flavian'')
       (Some
       [ ''Completed the Colosseum'',
         ''Handled the eruption of Mount Vesuvius'',
         ''Provided relief after a fire in Rome'' ])
       (Some ''Fever (possibly malaria)'') (Some ''Vespasian'') None
       (Some
       [ ''Arrecina Tertulla (died)'',
         ''Marcia Furnilla (divorced)'' ])
       (Some ''Capricorn'')"

definition domitian :: RomanEmperor where
  "domitian =
     new_RomanEmperor ''Domitian'' 51 96 81 96 (Some ''Flavian'')
       (Some
       [ ''Strengthened the economy and currency'',
         ''Expanded the border fortifications'',
         ''Major building programs in Rome'',
         ''Military campaigns in Germania and Dacia'' ])
       (Some ''Assassinated in palace conspiracy'') (Some ''Titus'') None
       (Some
       [ ''Domitia Longina'' ])
       (Some ''Scorpio'')"

definition nerva :: RomanEmperor where
  "nerva =
     new_RomanEmperor ''Nerva'' 30 98 96 98 (Some ''Nerva-Antonine'')
       (Some
       [ ''Established the tradition of adoptive succession'',
         ''Land reforms to help the poor'',
         ''Reduced taxes and improved the grain supply'' ])
       (Some ''Natural causes'') (Some ''Domitian'') None
       (Some [])
       (Some ''Aquarius'')"

definition trajan :: RomanEmperor where
  "trajan =
     new_RomanEmperor ''Trajan'' 53 117 98 117 (Some ''Nerva-Antonine'')
       (Some
       [ ''Expanded the Empire to its greatest territorial extent'',
         ''Conquered Dacia and its gold mines'',
         ''Extensive public building program'',
         ''Created alimenta welfare program for poor children'',
         (''Trajan'' @ [CHR 0x27] @ ''s Column and Trajan'' @ [CHR 0x27] @ ''s Forum'') ])
       (Some ''Illness (possibly stroke)'') (Some ''Nerva'') None
       (Some
       [ ''Pompeia Plotina'' ])
       (Some ''Virgo'')"

definition hadrian :: RomanEmperor where
  "hadrian =
     new_RomanEmperor ''Hadrian'' 76 138 117 138 (Some ''Nerva-Antonine'')
       (Some
       [ (''Built Hadrian'' @ [CHR 0x27] @ ''s Wall in Britain''),
         ''Extensive traveling throughout the empire'',
         ''Promoted Greek culture (philhellenism)'',
         ''Built the Pantheon in its current form'',
         ''Built his massive villa at Tivoli'' ])
       (Some ''Heart failure'') (Some ''Trajan'') None
       (Some
       [ (''Vibia Sabina (Trajan'' @ [CHR 0x27] @ ''s grandniece)'') ])
       (Some ''Aquarius'')"

definition antoninus_pius :: RomanEmperor where
  "antoninus_pius =
     new_RomanEmperor ''Antoninus Pius'' 86 161 138 161 (Some ''Nerva-Antonine'')
       (Some
       [ ''One of the most peaceful reigns'',
         ''Effective administration and sound finances'',
         ''Legal reforms protecting slaves and orphans'',
         ''Built the Antonine Wall in Scotland'' ])
       (Some ''Natural causes'') (Some ''Hadrian'') None
       (Some
       [ ''Faustina the Elder'' ])
       (Some ''Virgo'')"

definition marcus_aurelius :: RomanEmperor where
  "marcus_aurelius =
     new_RomanEmperor ''Marcus Aurelius'' 121 180 161 180 (Some ''Nerva-Antonine'')
       (Some
       [ (''Philosopher emperor who wrote '' @ [CHR 0x27] @ ''Meditations'' @ [CHR 0x27]),
         ''Successfully defended borders against Germanic tribes'',
         ''Dealt with the Antonine Plague'',
         (''Last of the '' @ [CHR 0x27] @ ''Five Good Emperors'' @ [CHR 0x27]) ])
       (Some ''Illness (possibly plague)'') (Some ''Antoninus Pius'') None
       (Some
       [ ''Faustina the Younger (daughter of Antoninus Pius)'' ])
       (Some ''Aries'')"

definition commodus :: RomanEmperor where
  "commodus =
     new_RomanEmperor ''Commodus'' 161 192 180 192 (Some ''Nerva-Antonine'')
       (Some
       [ ''Ended wars with Germanic tribes'',
         ''Presented himself as Hercules'',
         ''Participated as a gladiator in the Colosseum'' ])
       (Some ''Strangled in his bath after failed poisoning'') (Some ''Marcus Aurelius'') None
       (Some
       [ ''Bruttia Crispina (exiled and later executed)'' ])
       (Some ''Virgo'')"

definition septimius_severus :: RomanEmperor where
  "septimius_severus =
     new_RomanEmperor ''Septimius Severus'' 145 211 193 211 (Some ''Severan'')
       (Some
       [ ''Military reforms favoring the army'',
         ''Campaigns in Parthia and Britain'',
         ''Increased the role of the military in government'',
         ''Restored stability after civil war'' ])
       (Some ''Illness during campaign in Britain'') (Some ''Pertinax/Didius Julianus'') None
       (Some
       [ ''Paccia Marciana (died)'',
         ''Julia Domna (Syrian noblewoman)'' ])
       (Some ''Aries'')"

definition caracalla :: RomanEmperor where
  "caracalla =
     new_RomanEmperor ''Caracalla'' 188 217 211 217 (Some ''Severan'')
       (Some
       [ ''Constitutio Antoniniana (granted citizenship to all free men)'',
         ''Built the massive Baths of Caracalla'',
         ''Military campaigns against Germanic tribes and Parthians'',
         ''Doubled pay for soldiers'' ])
       (Some ''Assassinated by a disgruntled soldier'') (Some ''Septimius Severus'') None
       (Some
       [ ''Fulvia Plautilla (executed)'' ])
       (Some ''Aries'')"

definition diocletian :: RomanEmperor where
  "diocletian =
     new_RomanEmperor ''Diocletian'' 244 311 284 305 (Some ''Tetrarchy'')
       (Some
       [ ''Ended the Crisis of the Third Century'',
         ''Established the Tetrarchy (rule of four)'',
         ''Administrative reforms dividing the empire'',
         ''Economic reforms including price controls'',
         ''Major persecution of Christians'' ])
       (Some ''Natural causes (retired)'') (Some ''Numerian'') None
       (Some
       [ ''Prisca'' ])
       (Some ''Capricorn'')"

definition constantine :: RomanEmperor where
  "constantine =
     new_RomanEmperor ''Constantine the Great'' 272 337 306 337 (Some ''Constantinian'')
       (Some
       [ ''First Christian emperor'',
         ''Edict of Milan (religious tolerance)'',
         ''Founded Constantinople as new capital'',
         ''Convened the First Council of Nicaea'',
         ''Reunited the empire after civil wars'',
         ''Created new government and military structure'' ])
       (Some ''Illness'') (Some ''Constantius I Chlorus (in the West)'') None
       (Some
       [ ''Minervina'',
         ''Fausta (daughter of Maximian)'' ])
       (Some ''Pisces'')"


text \<open>
  \<open>a.successor = b\<close> after the records were added: the list of the collection holds the
  object \<open>a\<close> itself, so the record at the position of \<open>a\<close> changes.
\<close>

definition set_successor :: "nat \<Rightarrow> nat \<Rightarrow> RomanEmpire \<Rightarrow> RomanEmpire" where
  "set_successor a b self =
     self\<lparr> emperors := (emperors self)[a := (emperors self ! a)\<lparr> successor := Some b \<rparr>] \<rparr>"

definition seed_records :: "RomanEmperor list" where
  "seed_records =
     [ augustus, tiberius, caligula, claudius, nero, galba, otho, vitellius,
       vespasian, titus, domitian, nerva, trajan, hadrian, antoninus_pius,
       marcus_aurelius, commodus, septimius_severus, caracalla, diocletian, constantine ]"

text \<open>
  The successor assignments of the source, by position in \<open>seed_records\<close>: Augustus (0) to
  Tiberius (1), and so on up to Marcus Aurelius (15) to Commodus (16).
\<close>

definition successor_links :: "(nat \<times> nat) list" where
  "successor_links =
     [ (0, 1), (1, 2), (2, 3), (3, 4), (4, 5), (5, 6), (6, 7), (7, 8), (8, 9), (9, 10),
       (10, 11), (11, 12), (12, 13), (13, 14), (14, 15), (15, 16) ]"

definition create_roman_empire :: RomanEmpire where
  "create_roman_empire =
     foldl (\<lambda>empire (a, b). set_successor a b empire)
       (add_all seed_records) successor_links"


text \<open>
  A record that the source does not seed, for concrete checks: its \<open>dynasty\<close> and its
  \<open>zodiac\<close> are the empty string, and every other optional argument keeps its default.
\<close>

definition nemo :: RomanEmperor where
  "nemo = new_RomanEmperor ''Nemo'' 0 1 0 1 (Some []) None None None None None (Some [])"



section \<open>The derived computations\<close>

text \<open>
  C1. For every record, \<open>reign_duration\<close> is \<open>reign_end - reign_start\<close>, \<open>age_at_death\<close> is
  \<open>death - birth\<close> and \<open>age_at_accession\<close> is \<open>reign_start - birth\<close>. The three functions
  are total on records with integer fields: there is no error branch.
\<close>

theorem derived_computations:
  "reign_duration e = reign_end e - reign_start e
   \<and> age_at_death e = death e - birth e
   \<and> age_at_accession e = reign_start e - birth e"
  by (simp add: reign_duration_def age_at_death_def age_at_accession_def)

section \<open>Lookup by year\<close>

lemma by_year_loop_filter:
  "by_year_loop y es acc = acc @ [r \<leftarrow> es. reign_start r \<le> y \<and> y \<le> reign_end r]"
  by (induction es arbitrary: acc) simp_all

text \<open>
  C2. For every collection and every year \<open>y\<close>, \<open>get_emperor_by_year\<close> returns exactly the
  records with \<open>reign_start \<le> y \<le> reign_end\<close>, in insertion order: the result is the
  collection's list with the other records removed. It is the empty list exactly when no
  record matches; the function has no error branch.
\<close>

theorem get_emperor_by_year_exact:
  "get_emperor_by_year self y = [r \<leftarrow> emperors self. reign_start r \<le> y \<and> y \<le> reign_end r]
   \<and> (get_emperor_by_year self y = []
        \<longleftrightarrow> \<not> (\<exists>r \<in> set (emperors self). reign_start r \<le> y \<and> y \<le> reign_end r))"
  by (auto simp add: get_emperor_by_year_def by_year_loop_filter filter_empty_conv)


section \<open>Lookup by period\<close>

text \<open>
  For a reign and a window that are both well formed, the test of the source is the
  existence of a common year.
\<close>

lemma period_overlap_iff:
  assumes "reign_start r \<le> reign_end r" and "s \<le> e"
  shows "(\<exists>y. reign_start r \<le> y \<and> y \<le> reign_end r \<and> s \<le> y \<and> y \<le> e)
         \<longleftrightarrow> \<not> (reign_end r < s \<or> reign_start r > e)"
proof
  assume "\<exists>y. reign_start r \<le> y \<and> y \<le> reign_end r \<and> s \<le> y \<and> y \<le> e"
  then show "\<not> (reign_end r < s \<or> reign_start r > e)" by auto
next
  assume h: "\<not> (reign_end r < s \<or> reign_start r > e)"
  let ?y = "max (reign_start r) s"
  from h assms have "reign_start r \<le> ?y \<and> ?y \<le> reign_end r \<and> s \<le> ?y \<and> ?y \<le> e" by auto
  then show "\<exists>y. reign_start r \<le> y \<and> y \<le> reign_end r \<and> s \<le> y \<and> y \<le> e" by blast
qed

text \<open>
  C3. For every collection and all \<open>start_year\<close>, \<open>end_year\<close>, \<open>get_emperors_by_period\<close>
  returns the collection's list with exactly those records removed for which
  \<open>reign_end < start_year\<close> or \<open>reign_start > end_year\<close>; the order of the others is kept.
\<close>

theorem get_emperors_by_period_exact:
  "get_emperors_by_period self s e
     = [r \<leftarrow> emperors self. \<not> (reign_end r < s \<or> reign_start r > e)]
   \<and> (r \<in> set (get_emperors_by_period self s e)
        \<longleftrightarrow> r \<in> set (emperors self) \<and> \<not> (reign_end r < s \<or> reign_start r > e))
   \<and> (r \<in> set (emperors self) \<and> r \<notin> set (get_emperors_by_period self s e)
        \<longleftrightarrow> r \<in> set (emperors self) \<and> (reign_end r < s \<or> reign_start r > e))
   \<and> subseq (get_emperors_by_period self s e) (emperors self)"
  by (auto simp add: get_emperors_by_period_def)


section \<open>Adding records\<close>

lemma add_emperor_emperors: "emperors (add_emperor s e) = emperors s @ [e]"
  by (simp add: add_emperor_def Let_def)

lemma add_emperor_dynasties:
  "dynasties (add_emperor s e)
     = (if truthy (dynasty e) then insert (the (dynasty e)) (dynasties s) else dynasties s)"
  by (simp add: add_emperor_def Let_def)

lemma foldl_add_emperors: "emperors (foldl add_emperor s rs) = emperors s @ rs"
  by (induction rs arbitrary: s) (simp_all add: add_emperor_emperors)

lemma these_insert_dynasty:
  "Option.these (insert v S) - {[]}
     = (if truthy v then insert (the v) (Option.these S - {[]}) else Option.these S - {[]})"
  by (cases v) (auto simp add: truthy_def in_these_eq)

lemma foldl_add_dynasties:
  "dynasties (foldl add_emperor s rs)
     = dynasties s \<union> (Option.these (dynasty ` set rs) - {[]})"
proof (induction rs arbitrary: s)
  case Nil
  show ?case by simp
next
  case (Cons r rs)
  show ?case
    by (auto simp add: Cons.IH add_emperor_dynasties these_insert_dynasty)
qed


section \<open>Sorting and slicing\<close>

lemma slice_to_all: "int (length xs) \<le> n \<Longrightarrow> slice_to n xs = xs"
  by (simp add: slice_to_def)

lemma slice_to_zero: "slice_to 0 xs = []"
  by (simp add: slice_to_def)

lemma slice_to_neg: "n < 0 \<Longrightarrow> slice_to n xs = take (length xs - nat (- n)) xs"
proof -
  assume "n < 0"
  then have "nat (int (length xs) + n) = length xs - nat (- n)" by arith
  with \<open>n < 0\<close> show ?thesis by (simp add: slice_to_def)
qed

lemma length_sorted_by: "length (sorted_by f rv xs) = length xs"
  by (simp add: sorted_by_def)

lemma mset_sorted_by: "mset (sorted_by f rv xs) = mset xs"
  by (simp add: sorted_by_def)

lemma sorted_by_ascending: "sorted_by f False xs = sort_key f xs"
  by (simp add: sorted_by_def)

lemma filter_rev_sort_key:
  "filter (\<lambda>x. f x = k) (rev (sort_key f (rev xs))) = filter (\<lambda>x. f x = k) xs"
proof -
  have "filter (\<lambda>x. f x = k) (rev (sort_key f (rev xs)))
          = rev (filter (\<lambda>x. f x = k) (sort_key f (rev xs)))"
    by (simp add: rev_filter)
  also have "filter (\<lambda>x. f x = k) (sort_key f (rev xs)) = filter (\<lambda>x. f x = k) (rev xs)"
    by (rule sort_key_stable)
  finally show ?thesis by (simp add: rev_filter)
qed

lemma sorted_by_descending:
  fixes f :: "'a \<Rightarrow> int"
  shows "sorted_by f True xs = sort_key (\<lambda>x. - f x) xs"
proof -
  let ?ys = "rev (sort_key f (rev xs))"
  have m: "mset ?ys = mset xs" by simp
  have st: "\<And>k. k \<in> set ?ys \<Longrightarrow>
       filter (\<lambda>x. - f k = - f x) ?ys = filter (\<lambda>x. - f k = - f x) xs"
  proof -
    fix k
    have e: "(\<lambda>x. - f k = - f x) = (\<lambda>x. f x = f k)" by auto
    show "filter (\<lambda>x. - f k = - f x) ?ys = filter (\<lambda>x. - f k = - f x) xs"
      unfolding e by (rule filter_rev_sort_key)
  qed
  have "sorted (map f (sort_key f (rev xs)))" by simp
  then have so: "sorted (map (\<lambda>x. - f x) ?ys)"
    by (simp add: sorted_map sorted_wrt_rev)
  have "sort_key (\<lambda>x. - f x) xs = ?ys"
    by (rule properties_for_sort_key [OF m st so])
  then show ?thesis by (simp add: sorted_by_def)
qed

section \<open>Facts about the seeded collection\<close>

lemma emperors_add_all: "emperors (add_all rs) = rs"
  by (simp add: add_all_def foldl_add_emperors new_RomanEmpire_def)

lemma emperors_set_successors:
  "emperors (foldl (\<lambda>empire (a, b). set_successor a b empire) s links)
     = foldl (\<lambda>es (a, b). es[a := (es ! a)\<lparr> successor := Some b \<rparr>]) (emperors s) links"
  by (induction links arbitrary: s) (simp_all add: set_successor_def split_def)

lemma dynasties_set_successors:
  "dynasties (foldl (\<lambda>empire (a, b). set_successor a b empire) s links) = dynasties s"
  by (induction links arbitrary: s) (simp_all add: set_successor_def split_def)

lemma list_update_Cons_numeral: "(x # xs)[numeral v := y] = x # xs[numeral v - 1 := y]"
  by (simp add: numeral_eq_Suc)

lemma emperors_create_roman_empire:
  "emperors create_roman_empire =
     [ augustus\<lparr> successor := Some 1 \<rparr>, tiberius\<lparr> successor := Some 2 \<rparr>,
       caligula\<lparr> successor := Some 3 \<rparr>, claudius\<lparr> successor := Some 4 \<rparr>,
       nero\<lparr> successor := Some 5 \<rparr>, galba\<lparr> successor := Some 6 \<rparr>,
       otho\<lparr> successor := Some 7 \<rparr>, vitellius\<lparr> successor := Some 8 \<rparr>,
       vespasian\<lparr> successor := Some 9 \<rparr>, titus\<lparr> successor := Some 10 \<rparr>,
       domitian\<lparr> successor := Some 11 \<rparr>, nerva\<lparr> successor := Some 12 \<rparr>,
       trajan\<lparr> successor := Some 13 \<rparr>, hadrian\<lparr> successor := Some 14 \<rparr>,
       antoninus_pius\<lparr> successor := Some 15 \<rparr>, marcus_aurelius\<lparr> successor := Some 16 \<rparr>,
       commodus, septimius_severus, caracalla, diocletian, constantine ]"
  unfolding create_roman_empire_def emperors_set_successors emperors_add_all
  by (simp add: successor_links_def seed_records_def list_update_Cons_numeral)

lemma new_RomanEmperor_fields:
  "name (new_RomanEmperor nm b d rs re dyn ach cod pre suc wvs zod) = nm"
  "birth (new_RomanEmperor nm b d rs re dyn ach cod pre suc wvs zod) = b"
  "death (new_RomanEmperor nm b d rs re dyn ach cod pre suc wvs zod) = d"
  "reign_start (new_RomanEmperor nm b d rs re dyn ach cod pre suc wvs zod) = rs"
  "reign_end (new_RomanEmperor nm b d rs re dyn ach cod pre suc wvs zod) = re"
  "dynasty (new_RomanEmperor nm b d rs re dyn ach cod pre suc wvs zod) = dyn"
  "notable_achievements (new_RomanEmperor nm b d rs re dyn ach cod pre suc wvs zod) = or_empty ach"
  "wives (new_RomanEmperor nm b d rs re dyn ach cod pre suc wvs zod) = or_empty wvs"
  "zodiac (new_RomanEmperor nm b d rs re dyn ach cod pre suc wvs zod) = zod"
  by (simp_all add: new_RomanEmperor_def)

lemmas seed_defs =
  augustus_def tiberius_def caligula_def claudius_def nero_def
  galba_def otho_def vitellius_def vespasian_def titus_def
  domitian_def nerva_def trajan_def hadrian_def antoninus_pius_def
  marcus_aurelius_def commodus_def septimius_severus_def caracalla_def diocletian_def
  constantine_def

lemma seed_reign_start:
  "reign_start augustus = - 27"
  "reign_start tiberius = 14"
  "reign_start caligula = 37"
  "reign_start claudius = 41"
  "reign_start nero = 54"
  "reign_start galba = 68"
  "reign_start otho = 69"
  "reign_start vitellius = 69"
  "reign_start vespasian = 69"
  "reign_start titus = 79"
  "reign_start domitian = 81"
  "reign_start nerva = 96"
  "reign_start trajan = 98"
  "reign_start hadrian = 117"
  "reign_start antoninus_pius = 138"
  "reign_start marcus_aurelius = 161"
  "reign_start commodus = 180"
  "reign_start septimius_severus = 193"
  "reign_start caracalla = 211"
  "reign_start diocletian = 284"
  "reign_start constantine = 306"
  by (simp_all add: seed_defs new_RomanEmperor_fields)

lemma seed_reign_end:
  "reign_end augustus = 14"
  "reign_end tiberius = 37"
  "reign_end caligula = 41"
  "reign_end claudius = 54"
  "reign_end nero = 68"
  "reign_end galba = 69"
  "reign_end otho = 69"
  "reign_end vitellius = 69"
  "reign_end vespasian = 79"
  "reign_end titus = 81"
  "reign_end domitian = 96"
  "reign_end nerva = 98"
  "reign_end trajan = 117"
  "reign_end hadrian = 138"
  "reign_end antoninus_pius = 161"
  "reign_end marcus_aurelius = 180"
  "reign_end commodus = 192"
  "reign_end septimius_severus = 211"
  "reign_end caracalla = 217"
  "reign_end diocletian = 305"
  "reign_end constantine = 337"
  by (simp_all add: seed_defs new_RomanEmperor_fields)

lemma seed_name:
  "name augustus = ''Augustus (Octavian)''"
  "name tiberius = ''Tiberius''"
  "name caligula = ''Caligula (Gaius)''"
  "name claudius = ''Claudius''"
  "name nero = ''Nero''"
  "name galba = ''Galba''"
  "name otho = ''Otho''"
  "name vitellius = ''Vitellius''"
  "name vespasian = ''Vespasian''"
  "name titus = ''Titus''"
  "name domitian = ''Domitian''"
  "name nerva = ''Nerva''"
  "name trajan = ''Trajan''"
  "name hadrian = ''Hadrian''"
  "name antoninus_pius = ''Antoninus Pius''"
  "name marcus_aurelius = ''Marcus Aurelius''"
  "name commodus = ''Commodus''"
  "name septimius_severus = ''Septimius Severus''"
  "name caracalla = ''Caracalla''"
  "name diocletian = ''Diocletian''"
  "name constantine = ''Constantine the Great''"
  by (simp_all add: seed_defs new_RomanEmperor_fields)

lemma seed_durations:
  "map reign_duration (emperors create_roman_empire)
     = [41, 23, 4, 13, 14, 1, 0, 0, 10, 2, 15, 2, 19, 21, 23, 19, 12, 18, 6, 21, 31]"
  by (simp add: emperors_create_roman_empire reign_duration_def seed_reign_start seed_reign_end)

lemma seed_dynasty:
  "dynasty augustus = Some ''Julio-Claudian''"
  "dynasty tiberius = Some ''Julio-Claudian''"
  "dynasty caligula = Some ''Julio-Claudian''"
  "dynasty claudius = Some ''Julio-Claudian''"
  "dynasty nero = Some ''Julio-Claudian''"
  "dynasty galba = Some ''Year of the Four Emperors''"
  "dynasty otho = Some ''Year of the Four Emperors''"
  "dynasty vitellius = Some ''Year of the Four Emperors''"
  "dynasty vespasian = Some ''Flavian''"
  "dynasty titus = Some ''Flavian''"
  "dynasty domitian = Some ''Flavian''"
  "dynasty nerva = Some ''Nerva-Antonine''"
  "dynasty trajan = Some ''Nerva-Antonine''"
  "dynasty hadrian = Some ''Nerva-Antonine''"
  "dynasty antoninus_pius = Some ''Nerva-Antonine''"
  "dynasty marcus_aurelius = Some ''Nerva-Antonine''"
  "dynasty commodus = Some ''Nerva-Antonine''"
  "dynasty septimius_severus = Some ''Severan''"
  "dynasty caracalla = Some ''Severan''"
  "dynasty diocletian = Some ''Tetrarchy''"
  "dynasty constantine = Some ''Constantinian''"
  by (simp_all add: seed_defs new_RomanEmperor_fields)


section \<open>The longest reigns of the seeded collection\<close>

text \<open>
  C6. On the collection built by \<open>create_roman_empire\<close>, \<open>get_longest_reigning 3\<close> returns
  the records at positions 0, 20 and 1 of the collection: Augustus (41 years), Constantine
  the Great (31) and Tiberius (23). These are the three greatest values in the list of all
  reign durations; Antoninus Pius at position 14 also reigned 23 years and is left out,
  since Tiberius precedes him in insertion order. The result is the first three records of
  the stable sort by descending duration, and the first record reigned more than 40 years.
\<close>

theorem longest_reigning_seeded:
  "get_longest_reigning create_roman_empire 3
     = [emperors create_roman_empire ! 0, emperors create_roman_empire ! 20,
        emperors create_roman_empire ! 1]
   \<and> map name (get_longest_reigning create_roman_empire 3)
       = [''Augustus (Octavian)'', ''Constantine the Great'', ''Tiberius'']
   \<and> map reign_duration (get_longest_reigning create_roman_empire 3) = [41, 31, 23]
   \<and> map reign_duration (emperors create_roman_empire)
       = [41, 23, 4, 13, 14, 1, 0, 0, 10, 2, 15, 2, 19, 21, 23, 19, 12, 18, 6, 21, 31]
   \<and> get_longest_reigning create_roman_empire 3
       = take 3 (sort_key (\<lambda>x. - reign_duration x) (emperors create_roman_empire))
   \<and> 40 < reign_duration (hd (get_longest_reigning create_roman_empire 3))"
proof -
  have top: "get_longest_reigning create_roman_empire 3
     = [augustus\<lparr> successor := Some 1 \<rparr>, constantine, tiberius\<lparr> successor := Some 2 \<rparr>]"
    by (simp add: get_longest_reigning_def slice_to_def sorted_by_def
        emperors_create_roman_empire reign_duration_def seed_reign_start seed_reign_end)
  have pos: "[emperors create_roman_empire ! 0, emperors create_roman_empire ! 20,
        emperors create_roman_empire ! 1]
     = [augustus\<lparr> successor := Some 1 \<rparr>, constantine, tiberius\<lparr> successor := Some 2 \<rparr>]"
    by (simp add: emperors_create_roman_empire)
  have srt: "get_longest_reigning create_roman_empire 3
       = take 3 (sort_key (\<lambda>x. - reign_duration x) (emperors create_roman_empire))"
    by (simp add: get_longest_reigning_def slice_to_def sorted_by_descending)
  have c1: "get_longest_reigning create_roman_empire 3
     = [emperors create_roman_empire ! 0, emperors create_roman_empire ! 20,
        emperors create_roman_empire ! 1]"
    by (simp only: top pos)
  have c2: "map name (get_longest_reigning create_roman_empire 3)
       = [''Augustus (Octavian)'', ''Constantine the Great'', ''Tiberius'']"
    by (simp add: top seed_name)
  have c3: "map reign_duration (get_longest_reigning create_roman_empire 3) = [41, 31, 23]"
    by (simp add: top reign_duration_def seed_reign_start seed_reign_end)
  have c6: "40 < reign_duration (hd (get_longest_reigning create_roman_empire 3))"
    by (simp add: top reign_duration_def seed_reign_start seed_reign_end)
  show ?thesis
    by (intro conjI c1 c2 c3 seed_durations srt c6)
qed


section \<open>The year 69 in the seeded collection\<close>

text \<open>
  C7 as stated does not hold: on the collection built by \<open>create_roman_empire\<close>,
  \<open>get_emperor_by_year 69\<close> does not return three records, and its result is not the list
  of Galba, Otho and Vitellius.
\<close>

theorem year_69_seeded_counterexample:
  "length (get_emperor_by_year create_roman_empire 69) \<noteq> 3
   \<and> get_emperor_by_year create_roman_empire 69
       \<noteq> [emperors create_roman_empire ! 5, emperors create_roman_empire ! 6,
           emperors create_roman_empire ! 7]"
  by (simp add: get_emperor_by_year_def emperors_create_roman_empire
      seed_reign_start seed_reign_end)

text \<open>
  C7, amended. On the collection built by \<open>create_roman_empire\<close>, \<open>get_emperor_by_year 69\<close>
  returns exactly four records in insertion order: Galba, Otho and Vitellius, the three
  records of the dynasty \<open>Year of the Four Emperors\<close>, followed by Vespasian, whose reign
  of ten years starts in 69.
\<close>

theorem year_69_seeded:
  "get_emperor_by_year create_roman_empire 69
     = [emperors create_roman_empire ! 5, emperors create_roman_empire ! 6,
        emperors create_roman_empire ! 7, emperors create_roman_empire ! 8]
   \<and> map name (get_emperor_by_year create_roman_empire 69)
       = [''Galba'', ''Otho'', ''Vitellius'', ''Vespasian'']
   \<and> map reign_duration (get_emperor_by_year create_roman_empire 69) = [1, 0, 0, 10]
   \<and> map dynasty (get_emperor_by_year create_roman_empire 69)
       = [Some ''Year of the Four Emperors'', Some ''Year of the Four Emperors'',
          Some ''Year of the Four Emperors'', Some ''Flavian'']"
  by (simp add: get_emperor_by_year_def emperors_create_roman_empire reign_duration_def
      seed_reign_start seed_reign_end seed_name seed_dynasty)

section \<open>The dynasties of a collection\<close>

text \<open>
  C5 as stated does not hold: after adding one record whose \<open>dynasty\<close> is the empty
  string, which is a value and not \<open>None\<close>, \<open>dynasties\<close> is not the set of the dynasty
  values that are present in \<open>emperors\<close>.
\<close>

theorem dynasties_in_sync_counterexample:
  "dynasties
     (add_all [nemo])
   \<noteq> Option.these
       (dynasty ` set (emperors
          (add_all [nemo])))"
  by (simp add: add_all_def add_emperor_def new_RomanEmpire_def nemo_def
      new_RomanEmperor_fields truthy_def)

text \<open>
  C5, amended. After any run of \<open>add_emperor\<close> on a new collection, \<open>emperors\<close> holds the
  added records in order and \<open>dynasties\<close> is exactly the set of the dynasty values of these
  records that are neither \<open>None\<close> nor the empty string. Adding a record whose dynasty is
  already in the set leaves the set, and so its size, unchanged.
\<close>

theorem dynasties_in_sync:
  "emperors (add_all rs) = rs
   \<and> dynasties (add_all rs) = Option.these (dynasty ` set rs) - {[]}
   \<and> (dynasty e = Some d \<and> d \<in> dynasties (add_all rs)
        \<longrightarrow> dynasties (add_emperor (add_all rs) e) = dynasties (add_all rs)
            \<and> card (dynasties (add_emperor (add_all rs) e)) = card (dynasties (add_all rs)))"
  by (auto simp add: add_all_def foldl_add_emperors foldl_add_dynasties new_RomanEmpire_def
      add_emperor_dynasties insert_absorb)

theorem dynasties_in_sync_witness:
  "emperors (add_all [galba, nero]) = [galba, nero]
   \<and> dynasties (add_all [galba, nero]) = {''Year of the Four Emperors'', ''Julio-Claudian''}
   \<and> dynasty otho = Some ''Year of the Four Emperors''
   \<and> ''Year of the Four Emperors'' \<in> dynasties (add_all [galba, nero])
   \<and> dynasties (add_emperor (add_all [galba, nero]) otho) = dynasties (add_all [galba, nero])
   \<and> card (dynasties (add_emperor (add_all [galba, nero]) otho)) = 2"
  using dynasties_in_sync [of "[galba, nero]" otho "''Year of the Four Emperors''"]
  by (simp add: seed_dynasty insert_commute)


section \<open>The empty string as dynasty or zodiac\<close>

lemma join_Cons: "join sep (x # xs) = x @ (if xs = [] then [] else sep @ join sep xs)"
  by (cases xs) simp_all

lemma join_sublist_line:
  "0 < i \<Longrightarrow> i < length xs \<Longrightarrow> sublist (sep @ xs ! i) (join sep xs)"
proof (induction xs arbitrary: i)
  case Nil
  then show ?case by simp
next
  case (Cons x xs)
  from Cons.prems obtain j where j: "i = Suc j" "j < length xs"
    by (cases i) auto
  then have ne: "xs \<noteq> []" by auto
  show ?case
  proof (cases j)
    case 0
    from ne obtain y ys where xs: "xs = y # ys" by (cases xs) auto
    have "join sep (x # xs) = x @ (sep @ y) @ (if ys = [] then [] else sep @ join sep ys)"
      by (simp add: xs join_Cons)
    moreover have "(x # xs) ! i = y" by (simp add: j 0 xs)
    ultimately show ?thesis by (simp only: sublist_appendI)
  next
    case (Suc k)
    with j Cons.IH [of j] have "sublist (sep @ xs ! j) (join sep xs)" by simp
    then obtain ps ss where "join sep xs = ps @ (sep @ xs ! j) @ ss"
      by (auto simp add: sublist_def)
    then have "join sep (x # xs) = (x @ sep @ ps) @ (sep @ (x # xs) ! i) @ ss"
      using ne by (simp add: join_Cons j)
    then show ?thesis by (simp only: sublist_appendI)
  qed
qed

lemma info_length: "5 \<le> length (info e)"
  by (simp add: info_def)

lemma info_dynasty_line:
  "info e ! 3 = (if truthy (dynasty e) then ''Dynasty: '' @ format_opt (dynasty e)
                 else ''Dynasty: None'')"
  by (simp add: info_def)

lemma info_zodiac_line:
  "info e ! 4 = (if truthy (zodiac e) then ''Zodiac Sign: '' @ format_opt (zodiac e)
                 else ''Zodiac Sign: Unknown'')"
  by (simp add: info_def)

lemma str_shows_line: "0 < i \<Longrightarrow> i < 5 \<Longrightarrow> sublist (CHR 0x0A # info e ! i) (str e)"
  using join_sublist_line [of i "info e" "[CHR 0x0A]"] info_length [of e]
  by (simp add: str_def)

lemma empty_not_in_dynasties: "[] \<notin> dynasties (add_all rs)"
  by (simp add: add_all_def foldl_add_dynasties new_RomanEmpire_def)

text \<open>
  C10 as stated does not hold for every operation: \<open>get_emperors_by_dynasty\<close> compares
  with \<open>==\<close>, so in a collection of a record whose \<open>dynasty\<close> is the empty string and the
  same record with no dynasty, asking for \<open>None\<close> returns the second only, and asking for the
  empty string returns the first.
\<close>

theorem empty_dynasty_by_dynasty_counterexample:
  "get_emperors_by_dynasty (add_all [nemo, nemo\<lparr> dynasty := None \<rparr>]) None
     = [nemo\<lparr> dynasty := None \<rparr>]
   \<and> get_emperors_by_dynasty (add_all [nemo, nemo\<lparr> dynasty := None \<rparr>]) (Some [])
     = [nemo]
   \<and> dynasty nemo = Some []"
  by (simp add: get_emperors_by_dynasty_def emperors_add_all nemo_def new_RomanEmperor_fields)

text \<open>
  C10, amended. A record whose \<open>dynasty\<close> is the empty string is treated as having no
  dynasty by the two operations that test the truth value of the field: \<open>add_emperor\<close>
  leaves \<open>dynasties\<close> as it is, and the line at position 3 of \<open>info\<close> is \<open>Dynasty: None\<close>,
  which the text of \<open>__str__\<close>, \<open>info\<close> joined by newlines, contains after a newline. For
  a record whose \<open>zodiac\<close> is the empty string, the line at position 4 is
  \<open>Zodiac Sign: Unknown\<close>, likewise contained in the text. No run of \<open>add_emperor\<close> on a
  new collection puts the empty string into \<open>dynasties\<close>. The lookups
  \<open>get_emperors_by_dynasty\<close> and \<open>get_emperors_by_zodiac\<close> compare by equality: such a
  record is never returned for \<open>None\<close>, and is returned for the empty string whenever it is
  in the collection.
\<close>

theorem empty_string_counts_as_absent:
  "(dynasty e = Some [] \<longrightarrow>
      dynasties (add_emperor self e) = dynasties self
      \<and> info e ! 3 = ''Dynasty: None''
      \<and> sublist (CHR 0x0A # ''Dynasty: None'') (str e)
      \<and> e \<notin> set (get_emperors_by_dynasty self None)
      \<and> (e \<in> set (get_emperors_by_dynasty self (Some [])) \<longleftrightarrow> e \<in> set (emperors self)))
   \<and> (zodiac e = Some [] \<longrightarrow>
      info e ! 4 = ''Zodiac Sign: Unknown''
      \<and> sublist (CHR 0x0A # ''Zodiac Sign: Unknown'') (str e)
      \<and> e \<notin> set (get_emperors_by_zodiac self None)
      \<and> (e \<in> set (get_emperors_by_zodiac self (Some [])) \<longleftrightarrow> e \<in> set (emperors self)))
   \<and> str e = join [CHR 0x0A] (info e)
   \<and> [] \<notin> dynasties (add_all rs)"
proof -
  have d: "dynasty e = Some [] \<Longrightarrow> info e ! 3 = ''Dynasty: None''"
    by (simp add: info_dynasty_line truthy_def)
  have z: "zodiac e = Some [] \<Longrightarrow> info e ! 4 = ''Zodiac Sign: Unknown''"
    by (simp add: info_zodiac_line truthy_def)
  have a: "dynasty e = Some [] \<Longrightarrow> dynasties (add_emperor self e) = dynasties self"
    by (simp add: add_emperor_dynasties truthy_def)
  have s3: "sublist (CHR 0x0A # info e ! 3) (str e)" by (rule str_shows_line) simp_all
  have s4: "sublist (CHR 0x0A # info e ! 4) (str e)" by (rule str_shows_line) simp_all
  have q: "dynasty e = Some [] \<Longrightarrow> e \<notin> set (get_emperors_by_dynasty self None)
      \<and> (e \<in> set (get_emperors_by_dynasty self (Some [])) \<longleftrightarrow> e \<in> set (emperors self))"
    by (simp add: get_emperors_by_dynasty_def)
  have qz: "zodiac e = Some [] \<Longrightarrow> e \<notin> set (get_emperors_by_zodiac self None)
      \<and> (e \<in> set (get_emperors_by_zodiac self (Some [])) \<longleftrightarrow> e \<in> set (emperors self))"
    by (simp add: get_emperors_by_zodiac_def)
  show ?thesis
    using d z a s3 s4 q qz empty_not_in_dynasties [of rs] by (auto simp add: str_def)
qed

theorem empty_string_counts_as_absent_witness:
  "dynasty nemo = Some []
   \<and> zodiac nemo = Some []
   \<and> dynasties (add_emperor (add_all [nero]) nemo) = {''Julio-Claudian''}
   \<and> info nemo ! 3 = ''Dynasty: None''
   \<and> info nemo ! 4 = ''Zodiac Sign: Unknown''
   \<and> sublist (CHR 0x0A # ''Dynasty: None'') (str nemo)
   \<and> sublist (CHR 0x0A # ''Zodiac Sign: Unknown'') (str nemo)
   \<and> info nemo
     = [''Name: Nemo'', ''Lived: 0 CE - 1 CE (Age: 1 years)'', ''Reign: 0 CE - 1 CE (1 years)'',
        ''Dynasty: None'', ''Zodiac Sign: Unknown'']"
proof -
  let ?e = "nemo"
  have h1: "dynasty ?e = Some []" by (simp add: nemo_def new_RomanEmperor_fields)
  have h2: "zodiac ?e = Some []" by (simp add: nemo_def new_RomanEmperor_fields)
  from empty_string_counts_as_absent [of ?e "add_all [nero]" "[nero]"] h1 h2
  have main: "dynasties (add_emperor (add_all [nero]) ?e) = dynasties (add_all [nero])
      \<and> info ?e ! 3 = ''Dynasty: None''
      \<and> sublist (CHR 0x0A # ''Dynasty: None'') (str ?e)
      \<and> info ?e ! 4 = ''Zodiac Sign: Unknown''
      \<and> sublist (CHR 0x0A # ''Zodiac Sign: Unknown'') (str ?e)"
    by blast
  have dn: "dynasties (add_all [nero]) = {''Julio-Claudian''}"
    by (simp add: add_all_def add_emperor_dynasties new_RomanEmpire_def seed_dynasty truthy_def)
  have inf: "info ?e
     = [''Name: Nemo'', ''Lived: 0 CE - 1 CE (Age: 1 years)'', ''Reign: 0 CE - 1 CE (1 years)'',
        ''Dynasty: None'', ''Zodiac Sign: Unknown'']"
    by code_simp
  from main dn h1 h2 inf show ?thesis by (simp only: simp_thms)
qed

section \<open>The bounds of the top-N queries\<close>

lemma witness_durations:
  "reign_duration galba = 1" "reign_duration otho = 0" "reign_duration vitellius = 0"
  by (simp_all add: reign_duration_def seed_reign_start seed_reign_end)

text \<open>
  C4 as stated does not hold for a negative \<open>n\<close>: on a collection of three records, each
  of the five top-N queries with \<open>n = -1\<close> returns a non-empty list.
\<close>

theorem top_n_negative_counterexample:
  "get_longest_reigning (add_all [galba, otho, vitellius]) (- 1) \<noteq> []
   \<and> get_shortest_reigning (add_all [galba, otho, vitellius]) (- 1) \<noteq> []
   \<and> get_oldest_at_death (add_all [galba, otho, vitellius]) (- 1) \<noteq> []
   \<and> get_youngest_at_accession (add_all [galba, otho, vitellius]) (- 1) \<noteq> []
   \<and> get_most_achievements (add_all [galba, otho, vitellius]) (- 1) \<noteq> []"
  by (simp add: get_longest_reigning_def get_shortest_reigning_def get_oldest_at_death_def
      get_youngest_at_accession_def get_most_achievements_def emperors_add_all
      slice_to_def length_sorted_by flip: length_0_conv)

text \<open>
  C4, amended. For each of the five top-N queries and every integer \<open>n\<close>: when \<open>n\<close> is at
  least the size of the collection, the result is the whole sorted collection, which has
  the same records with the same multiplicities as the collection; when \<open>n\<close> is 0, the
  result is empty; when \<open>n\<close> is negative, the result is the sorted collection without its
  last \<open>-n\<close> records, which is empty only if \<open>-n\<close> is at least the size.
\<close>

theorem top_n_bounds:
  "(int (length (emperors self)) \<le> n \<longrightarrow>
      get_longest_reigning self n = sorted_by (\<lambda>x. reign_duration x) True (emperors self)
      \<and> get_shortest_reigning self n = sorted_by (\<lambda>x. reign_duration x) False (emperors self)
      \<and> get_oldest_at_death self n = sorted_by (\<lambda>x. age_at_death x) True (emperors self)
      \<and> get_youngest_at_accession self n
          = sorted_by (\<lambda>x. age_at_accession x) False (emperors self)
      \<and> get_most_achievements self n
          = sorted_by (\<lambda>x. int (length (notable_achievements x))) True (emperors self)
      \<and> mset (get_longest_reigning self n) = mset (emperors self)
      \<and> mset (get_shortest_reigning self n) = mset (emperors self)
      \<and> mset (get_oldest_at_death self n) = mset (emperors self)
      \<and> mset (get_youngest_at_accession self n) = mset (emperors self)
      \<and> mset (get_most_achievements self n) = mset (emperors self))
   \<and> (n = 0 \<longrightarrow>
      get_longest_reigning self n = [] \<and> get_shortest_reigning self n = []
      \<and> get_oldest_at_death self n = [] \<and> get_youngest_at_accession self n = []
      \<and> get_most_achievements self n = [])
   \<and> (n < 0 \<longrightarrow>
      get_longest_reigning self n
        = take (length (emperors self) - nat (- n))
            (sorted_by (\<lambda>x. reign_duration x) True (emperors self))
      \<and> get_shortest_reigning self n
        = take (length (emperors self) - nat (- n))
            (sorted_by (\<lambda>x. reign_duration x) False (emperors self))
      \<and> get_oldest_at_death self n
        = take (length (emperors self) - nat (- n))
            (sorted_by (\<lambda>x. age_at_death x) True (emperors self))
      \<and> get_youngest_at_accession self n
        = take (length (emperors self) - nat (- n))
            (sorted_by (\<lambda>x. age_at_accession x) False (emperors self))
      \<and> get_most_achievements self n
        = take (length (emperors self) - nat (- n))
            (sorted_by (\<lambda>x. int (length (notable_achievements x))) True (emperors self)))"
proof (intro conjI impI)
  assume "int (length (emperors self)) \<le> n"
  then have all: "\<And>f rv. slice_to n (sorted_by f rv (emperors self))
                     = sorted_by f rv (emperors self)"
    by (simp add: slice_to_all length_sorted_by)
  show "get_longest_reigning self n = sorted_by (\<lambda>x. reign_duration x) True (emperors self)"
    by (simp add: get_longest_reigning_def all)
  show "get_shortest_reigning self n = sorted_by (\<lambda>x. reign_duration x) False (emperors self)"
    by (simp add: get_shortest_reigning_def all)
  show "get_oldest_at_death self n = sorted_by (\<lambda>x. age_at_death x) True (emperors self)"
    by (simp add: get_oldest_at_death_def all)
  show "get_youngest_at_accession self n
          = sorted_by (\<lambda>x. age_at_accession x) False (emperors self)"
    by (simp add: get_youngest_at_accession_def all)
  show "get_most_achievements self n
          = sorted_by (\<lambda>x. int (length (notable_achievements x))) True (emperors self)"
    by (simp add: get_most_achievements_def all)
  show "mset (get_longest_reigning self n) = mset (emperors self)"
    by (simp add: get_longest_reigning_def all mset_sorted_by)
  show "mset (get_shortest_reigning self n) = mset (emperors self)"
    by (simp add: get_shortest_reigning_def all mset_sorted_by)
  show "mset (get_oldest_at_death self n) = mset (emperors self)"
    by (simp add: get_oldest_at_death_def all mset_sorted_by)
  show "mset (get_youngest_at_accession self n) = mset (emperors self)"
    by (simp add: get_youngest_at_accession_def all mset_sorted_by)
  show "mset (get_most_achievements self n) = mset (emperors self)"
    by (simp add: get_most_achievements_def all mset_sorted_by)
next
  assume "n = 0"
  then show "get_longest_reigning self n = []" "get_shortest_reigning self n = []"
    "get_oldest_at_death self n = []" "get_youngest_at_accession self n = []"
    "get_most_achievements self n = []"
    by (simp_all add: get_longest_reigning_def get_shortest_reigning_def
        get_oldest_at_death_def get_youngest_at_accession_def get_most_achievements_def
        slice_to_zero)
next
  assume "n < 0"
  then have neg: "\<And>f rv. slice_to n (sorted_by f rv (emperors self))
      = take (length (emperors self) - nat (- n)) (sorted_by f rv (emperors self))"
    by (simp add: slice_to_neg length_sorted_by)
  show "get_longest_reigning self n
        = take (length (emperors self) - nat (- n))
            (sorted_by (\<lambda>x. reign_duration x) True (emperors self))"
    by (simp add: get_longest_reigning_def neg)
  show "get_shortest_reigning self n
        = take (length (emperors self) - nat (- n))
            (sorted_by (\<lambda>x. reign_duration x) False (emperors self))"
    by (simp add: get_shortest_reigning_def neg)
  show "get_oldest_at_death self n
        = take (length (emperors self) - nat (- n))
            (sorted_by (\<lambda>x. age_at_death x) True (emperors self))"
    by (simp add: get_oldest_at_death_def neg)
  show "get_youngest_at_accession self n
        = take (length (emperors self) - nat (- n))
            (sorted_by (\<lambda>x. age_at_accession x) False (emperors self))"
    by (simp add: get_youngest_at_accession_def neg)
  show "get_most_achievements self n
        = take (length (emperors self) - nat (- n))
            (sorted_by (\<lambda>x. int (length (notable_achievements x))) True (emperors self))"
    by (simp add: get_most_achievements_def neg)
qed

theorem top_n_bounds_witness:
  "int (length (emperors (add_all [galba, otho, vitellius]))) \<le> 1000
   \<and> get_longest_reigning (add_all [galba, otho, vitellius]) 1000 = [galba, otho, vitellius]
   \<and> get_shortest_reigning (add_all [galba, otho, vitellius]) 1000 = [otho, vitellius, galba]
   \<and> get_longest_reigning (add_all [galba, otho, vitellius]) 0 = []
   \<and> get_shortest_reigning (add_all [galba, otho, vitellius]) 0 = []
   \<and> get_longest_reigning (add_all [galba, otho, vitellius]) (- 1) = [galba, otho]
   \<and> get_shortest_reigning (add_all [galba, otho, vitellius]) (- 1) = [otho, vitellius]"
  using top_n_bounds [of "add_all [galba, otho, vitellius]" 1000]
    top_n_bounds [of "add_all [galba, otho, vitellius]" 0]
    top_n_bounds [of "add_all [galba, otho, vitellius]" "- 1"]
  by (simp add: emperors_add_all sorted_by_def witness_durations)


section \<open>The top-N queries leave the collection as it is\<close>

lemma store_top_n_frame:
  assumes "a < length st"
  shows "snd (store_top_n f rv a n st) ! a = st ! a"
    and "take (length st) (snd (store_top_n f rv a n st)) = st"
    and "fst (store_top_n f rv a n st) < length (snd (store_top_n f rv a n st))"
    and "snd (store_top_n f rv a n st) ! fst (store_top_n f rv a n st)
           = slice_to n (sorted_by f rv (st ! a))"
  using assms
  by (simp_all add: store_top_n_def store_sorted_def store_slice_to_def nth_append)

text \<open>
  C9. In a store where the list of the collection is at address \<open>a\<close>, each of the five
  top-N queries, for every \<open>n\<close>, leaves the list at \<open>a\<close> as it was, contents and order;
  every list object that existed before the call is unchanged, since the store after the
  call starts with the store before it. The address returned holds the result of the query
  on the collection.
\<close>

theorem top_n_queries_keep_emperors:
  "a < length st \<Longrightarrow>
     snd (store_get_longest_reigning a n st) ! a = st ! a
   \<and> snd (store_get_shortest_reigning a n st) ! a = st ! a
   \<and> snd (store_get_oldest_at_death a n st) ! a = st ! a
   \<and> snd (store_get_youngest_at_accession a n st) ! a = st ! a
   \<and> snd (store_get_most_achievements a n st) ! a = st ! a
   \<and> take (length st) (snd (store_get_longest_reigning a n st)) = st
   \<and> take (length st) (snd (store_get_shortest_reigning a n st)) = st
   \<and> take (length st) (snd (store_get_oldest_at_death a n st)) = st
   \<and> take (length st) (snd (store_get_youngest_at_accession a n st)) = st
   \<and> take (length st) (snd (store_get_most_achievements a n st)) = st
   \<and> snd (store_get_longest_reigning a n st) ! fst (store_get_longest_reigning a n st)
       = get_longest_reigning \<lparr> emperors = st ! a, dynasties = ds \<rparr> n
   \<and> snd (store_get_shortest_reigning a n st) ! fst (store_get_shortest_reigning a n st)
       = get_shortest_reigning \<lparr> emperors = st ! a, dynasties = ds \<rparr> n
   \<and> snd (store_get_oldest_at_death a n st) ! fst (store_get_oldest_at_death a n st)
       = get_oldest_at_death \<lparr> emperors = st ! a, dynasties = ds \<rparr> n
   \<and> snd (store_get_youngest_at_accession a n st) ! fst (store_get_youngest_at_accession a n st)
       = get_youngest_at_accession \<lparr> emperors = st ! a, dynasties = ds \<rparr> n
   \<and> snd (store_get_most_achievements a n st) ! fst (store_get_most_achievements a n st)
       = get_most_achievements \<lparr> emperors = st ! a, dynasties = ds \<rparr> n"
  by (simp add: store_get_longest_reigning_def store_get_shortest_reigning_def
      store_get_oldest_at_death_def store_get_youngest_at_accession_def
      store_get_most_achievements_def store_top_n_frame
      get_longest_reigning_def get_shortest_reigning_def get_oldest_at_death_def
      get_youngest_at_accession_def get_most_achievements_def)

theorem top_n_queries_keep_emperors_witness:
  "(0::nat) < length [[galba, otho, vitellius]]
   \<and> store_get_shortest_reigning 0 2 [[galba, otho, vitellius]]
       = (2, [[galba, otho, vitellius], [otho, vitellius, galba], [otho, vitellius]])
   \<and> snd (store_get_shortest_reigning 0 2 [[galba, otho, vitellius]]) ! 0
       = [galba, otho, vitellius]
   \<and> take 1 (snd (store_get_shortest_reigning 0 2 [[galba, otho, vitellius]]))
       = [[galba, otho, vitellius]]"
  using top_n_queries_keep_emperors [of 0 "[[galba, otho, vitellius]]" 2 "{}"]
  by (simp add: store_get_shortest_reigning_def store_top_n_def store_sorted_def
      store_slice_to_def slice_to_def sorted_by_def witness_durations)

section \<open>Lookup by wife\<close>

lemma str_in_iff: "str_in a b \<longleftrightarrow> (\<exists>ps ss. b = ps @ a @ ss)"
  by (simp add: str_in_def sublist_def)













end
